theory Spec2Isabelle
  imports Complex_Main "HOL-Library.Log_Nat"
begin

section \<open>JavaScript numbers\<close>













section \<open>Presentation utilities\<close>

subsection \<open>computeClimbingPercentsAndColors\<close>









subsection \<open>sanitizeName\<close>

text \<open>
  The fragment of regular expressions that \<open>sanitizeName\<close> uses: the assertion \<open>^\<close>, one
  character of a class, a greedy bounded repetition of one character of a class, sequence and
  alternation. A string is a list of UTF-16 code units; a \<open>char\<close> stands for a code unit
  below 256.
\<close>

datatype re =
    Bol
  | Atom "char \<Rightarrow> bool"
  | Rep "char \<Rightarrow> bool" nat "nat option"
  | Seq re re
  | Alt re re

text \<open>
  \<open>ends r s i\<close> lists the end positions of the matches of \<open>r\<close> in \<open>s\<close> that start at \<open>i\<close>, in
  the order in which a backtracking matcher tries them: the left alternative first, the
  longest repetition first.
\<close>

fun ends :: "re \<Rightarrow> string \<Rightarrow> nat \<Rightarrow> nat list" where
  "ends Bol s i = (if i = 0 then [i] else [])"
| "ends (Atom p) s i = (if i < length s \<and> p (s ! i) then [i + 1] else [])"
| "ends (Rep p lo hi) s i =
     (let n = length (takeWhile p (drop i s));
          m = (case hi of None \<Rightarrow> n | Some h \<Rightarrow> min h n)
      in map (\<lambda>k. i + k) (rev [lo..<m + 1]))"
| "ends (Seq r1 r2) s i = concat (map (ends r2 s) (ends r1 s i))"
| "ends (Alt r1 r2) s i = ends r1 s i @ ends r2 s i"

text \<open>The first match: the leftmost start, and there the first end in backtracking order.\<close>

definition exec :: "re \<Rightarrow> string \<Rightarrow> (nat \<times> nat) option" where
  "exec r s =
     (case filter (\<lambda>i. ends r s i \<noteq> []) [0..<length s + 1] of
        [] \<Rightarrow> None
      | i # _ \<Rightarrow> Some (i, hd (ends r s i)))"

text \<open>\<open>s.replace(r, '')\<close> for a regular expression without the \<open>g\<close> flag.\<close>

definition replace_first :: "re \<Rightarrow> string \<Rightarrow> string" where
  "replace_first r s = (case exec r s of None \<Rightarrow> s | Some (i, j) \<Rightarrow> take i s @ drop j s)"

definition code_unit :: "char \<Rightarrow> nat" where
  "code_unit c = of_char c"

definition lit :: "char \<Rightarrow> char \<Rightarrow> bool" where
  "lit c x = (x = c)"

definition any_char :: "char \<Rightarrow> bool" where
  "any_char x = (code_unit x \<noteq> 10 \<and> code_unit x \<noteq> 13)"

definition digit :: "char \<Rightarrow> bool" where
  "digit x = (48 \<le> code_unit x \<and> code_unit x \<le> 57)"

definition digit19 :: "char \<Rightarrow> bool" where
  "digit19 x = (49 \<le> code_unit x \<and> code_unit x \<le> 57)"

definition letter :: "char \<Rightarrow> bool" where
  "letter x = ((97 \<le> code_unit x \<and> code_unit x \<le> 122) \<or> (65 \<le> code_unit x \<and> code_unit x \<le> 90))"

definition dash_or_colon :: "char \<Rightarrow> bool" where
  "dash_or_colon x = (x = CHR ''-'' \<or> x = CHR '':'')"

text \<open>
  \<^verbatim>\<open>/^(\(.{1,3}\) *)|((\d?[1-9]|[1-9]0)[-:])|[a-zA-Z]{1,2}\./\<close>: alternation binds weakest,
  so \<open>^\<close> belongs to the first alternative alone.
\<close>

definition paren_code :: re where
  "paren_code =
     Seq Bol (Seq (Atom (lit CHR ''(''))
             (Seq (Rep any_char 1 (Some 3))
             (Seq (Atom (lit CHR '')'')) (Rep (lit CHR '' '') 0 None))))"

definition numeric_prefix :: re where
  "numeric_prefix =
     Seq (Alt (Seq (Rep digit 0 (Some 1)) (Atom digit19))
              (Seq (Atom digit19) (Atom (lit CHR ''0''))))
         (Atom dash_or_colon)"

definition abbreviation_prefix :: re where
  "abbreviation_prefix = Seq (Rep letter 1 (Some 2)) (Atom (lit CHR ''.''))"

definition sanitize_re :: re where
  "sanitize_re = Alt paren_code (Alt numeric_prefix abbreviation_prefix)"

definition sanitizeName :: "string \<Rightarrow> string" where
  "sanitizeName s = replace_first sanitize_re s"


section \<open>The media client\<close>

subsection \<open>Values, requests and the world\<close>

text \<open>
  Response bodies are untyped JSON. \<open>JUndefined\<close> is what reading a missing property gives.
  The numbers that occur (status codes, sizes, millisecond timestamps) are integers.
\<close>

datatype json =
    JUndefined
  | JNull
  | JBool bool
  | JNum int
  | JStr string
  | JArr "json list"
  | JObj "(string \<times> json) list"

text \<open>
  What can be thrown: an \<open>Error\<close> with its message, a \<open>TypeError\<close> of the runtime, and
  whatever the HTTP transport rejects with, which carries the response status if there was a
  response.
\<close>

datatype exn =
    Error string
  | TypeError string
  | AxiosError "int option" string

datatype http_method = GET | POST

datatype payload = Json json | Buffer "nat list"

record request =
  verb :: http_method
  url :: string
  body :: "payload option"
  config_headers :: "(string \<times> string) list"

record response =
  status :: int
  statusText :: string
  data :: json

datatype logged = LStr string | LInt int | LJson json | LExn exn

text \<open>The observable effects: the requests handed to the transport and the console lines.\<close>

record world =
  requests :: "request list"
  console :: "logged list list"

record sirv_config =
  clientId :: "string option"
  clientSecret :: "string option"
  clientAdminId :: "string option"
  clientAdminSecret :: "string option"
  baseUrl :: string

text \<open>
  What the module reads from its surroundings: the configuration taken from the process
  environment, the transport with the remote service behind it (its answer may depend on the
  requests made before), the clock, and three library functions it imports: \<open>uuidv5\<close> of the
  uuid package, \<open>basename\<close> of the path module, and the built-in \<open>encodeURIComponent\<close>.
\<close>

record env =
  SIRV_CONFIG :: sirv_config
  transport :: "request list \<Rightarrow> request \<Rightarrow> exn + response"
  dateNow :: int
  uuidv5 :: "json \<Rightarrow> string \<Rightarrow> exn + string"
  uuidv5_URL :: string
  basename :: "string \<Rightarrow> string"
  encodeURIComponent :: "string \<Rightarrow> string"

text \<open>An asynchronous function, awaited at once: it maps the world to a result and a world.\<close>

type_synonym 'a io = "world \<Rightarrow> (exn + 'a) \<times> world"

definition return :: "'a \<Rightarrow> 'a io" where
  "return x w = (Inr x, w)"

definition throw :: "exn \<Rightarrow> 'a io" where
  "throw e w = (Inl e, w)"

definition await :: "'a io \<Rightarrow> ('a \<Rightarrow> 'b io) \<Rightarrow> 'b io" where
  "await m f w = (case m w of (Inl e, w') \<Rightarrow> (Inl e, w') | (Inr x, w') \<Rightarrow> f x w')"

definition try_catch :: "'a io \<Rightarrow> (exn \<Rightarrow> 'a io) \<Rightarrow> 'a io" where
  "try_catch m h w = (case m w of (Inl e, w') \<Rightarrow> h e w' | (Inr x, w') \<Rightarrow> (Inr x, w'))"

definition lift :: "exn + 'a \<Rightarrow> 'a io" where
  "lift r w = (r, w)"

definition console_log :: "logged list \<Rightarrow> unit io" where
  "console_log line w = (Inr (), w\<lparr>console := console w @ [line]\<rparr>)"

definition send :: "env \<Rightarrow> request \<Rightarrow> response io" where
  "send e req w = (transport e (requests w) req, w\<lparr>requests := requests w @ [req]\<rparr>)"

definition client_post ::
  "env \<Rightarrow> string \<Rightarrow> payload \<Rightarrow> (string \<times> string) list \<Rightarrow> response io" where
  "client_post e u b hs = send e \<lparr>verb = POST, url = u, body = Some b, config_headers = hs\<rparr>"

definition client_get :: "env \<Rightarrow> string \<Rightarrow> (string \<times> string) list \<Rightarrow> response io" where
  "client_get e u hs = send e \<lparr>verb = GET, url = u, body = None, config_headers = hs\<rparr>"

definition baseURL :: string where
  "baseURL = ''https://api.sirv.com/v2''"

definition headers :: "(string \<times> string) list" where
  "headers = [(''content-type'', ''application/json'')]"

subsection \<open>Language primitives\<close>

text \<open>
  \<open>v.k\<close> for the property names read below, none of which a string, number, boolean or array
  has: reading from \<open>undefined\<close> or \<open>null\<close> throws, a primitive gives \<open>undefined\<close>.
\<close>

fun get_prop :: "json \<Rightarrow> string \<Rightarrow> exn + json" where
  "get_prop JUndefined k = Inl (TypeError (''Cannot read properties of undefined (reading '' @ k @ '')''))"
| "get_prop JNull k = Inl (TypeError (''Cannot read properties of null (reading '' @ k @ '')''))"
| "get_prop (JObj kvs) k = Inr (case map_of kvs k of Some v \<Rightarrow> v | None \<Rightarrow> JUndefined)"
| "get_prop _ k = Inr JUndefined"

text \<open>\<open>v == null\<close>.\<close>

fun is_nullish :: "json \<Rightarrow> bool" where
  "is_nullish JUndefined = True"
| "is_nullish JNull = True"
| "is_nullish _ = False"

fun digits :: "nat \<Rightarrow> string" where
  "digits n = (if n < 10 then [char_of (48 + n)] else digits (n div 10) @ [char_of (48 + n mod 10)])"

definition int_to_string :: "int \<Rightarrow> string" where
  "int_to_string i = (if i < 0 then CHR ''-'' # digits (nat (- i)) else digits (nat i))"

fun join :: "string \<Rightarrow> string list \<Rightarrow> string" where
  "join sep [] = []"
| "join sep [x] = x"
| "join sep (x # y # ys) = x @ sep @ join sep (y # ys)"

text \<open>The conversion to a string that a template literal applies.\<close>

fun to_string :: "json \<Rightarrow> string" where
  "to_string JUndefined = ''undefined''"
| "to_string JNull = ''null''"
| "to_string (JBool b) = (if b then ''true'' else ''false'')"
| "to_string (JNum i) = int_to_string i"
| "to_string (JStr s) = s"
| "to_string (JArr vs) =
     join '','' (map (\<lambda>v. if is_nullish v then [] else to_string v) vs)"
| "to_string (JObj kvs) = ''[object Object]''"

definition is_space :: "char \<Rightarrow> bool" where
  "is_space c = ((9 \<le> code_unit c \<and> code_unit c \<le> 13) \<or> code_unit c = 32 \<or> code_unit c = 160)"

definition trim :: "string \<Rightarrow> string" where
  "trim s = rev (dropWhile is_space (rev (dropWhile is_space s)))"

definition toLowerCase_unit :: "char \<Rightarrow> char" where
  "toLowerCase_unit c =
     (if (65 \<le> code_unit c \<and> code_unit c \<le> 90)
         \<or> (192 \<le> code_unit c \<and> code_unit c \<le> 222 \<and> code_unit c \<noteq> 215)
      then char_of (code_unit c + 32) else c)"

definition toLowerCase :: "string \<Rightarrow> string" where
  "toLowerCase s = map toLowerCase_unit s"

definition backslash :: char where
  "backslash = CHR 0x5C"

text \<open>\<^verbatim>\<open>name.replace(/\//g, '\\\\//')\<close>: every slash becomes two backslashes and two slashes.\<close>

definition escape_slashes :: "string \<Rightarrow> string" where
  "escape_slashes s =
     concat (map (\<lambda>c. if c = CHR ''/'' then [backslash, backslash, CHR ''/'', CHR ''/''] else [c]) s)"

definition and_then :: "exn + 'a \<Rightarrow> ('a \<Rightarrow> exn + 'b) \<Rightarrow> exn + 'b" where
  "and_then r f = (case r of Inl e \<Rightarrow> Inl e | Inr x \<Rightarrow> f x)"

text \<open>\<open>xs.map(f)\<close> for a callback that may throw: the first exception ends the loop.\<close>

fun map_result :: "('a \<Rightarrow> exn + 'b) \<Rightarrow> 'a list \<Rightarrow> exn + 'b list" where
  "map_result f [] = Inr []"
| "map_result f (x # xs) =
     and_then (f x) (\<lambda>y. and_then (map_result f xs) (\<lambda>ys. Inr (y # ys)))"

subsection \<open>Token acquisition\<close>

definition validateTokenParams :: "string option \<times> string option \<Rightarrow> bool" where
  "validateTokenParams params = (fst params \<noteq> None \<and> snd params \<noteq> None)"

definition tokenParams :: "env \<Rightarrow> bool \<Rightarrow> string option \<times> string option" where
  "tokenParams e isAdmin =
     (if isAdmin then (clientAdminId (SIRV_CONFIG e), clientAdminSecret (SIRV_CONFIG e))
      else (clientId (SIRV_CONFIG e), clientSecret (SIRV_CONFIG e)))"

definition string_or_null :: "string option \<Rightarrow> json" where
  "string_or_null x = (case x of None \<Rightarrow> JNull | Some s \<Rightarrow> JStr s)"

definition tokenRequest :: "env \<Rightarrow> bool \<Rightarrow> request" where
  "tokenRequest e isAdmin =
     \<lparr>verb = POST, url = ''/token'',
      body = Some (Json (JObj [(''clientId'', string_or_null (fst (tokenParams e isAdmin))),
                               (''clientSecret'', string_or_null (snd (tokenParams e isAdmin)))])),
      config_headers = []\<rparr>"

definition getToken :: "env \<Rightarrow> bool \<Rightarrow> json io" where
  "getToken e isAdmin =
     (if \<not> validateTokenParams (tokenParams e isAdmin)
      then await (console_log [LStr ''Missing client token/secret'']) (\<lambda>_. return JUndefined)
      else await (send e (tokenRequest e isAdmin)) (\<lambda>res.
             if status res = 200 then lift (get_prop (data res) ''token'')
             else throw (Error (''Sirv API.getToken() error'' @ statusText res))))"

definition getAdminToken :: "env \<Rightarrow> json io" where
  "getAdminToken e = getToken e True"

definition getAdminTokenIfNotExist :: "env \<Rightarrow> string option \<Rightarrow> json io" where
  "getAdminTokenIfNotExist e token =
     (case token of
        Some t \<Rightarrow> return (JStr t)
      | None \<Rightarrow> await (getAdminToken e) (\<lambda>t.
          if is_nullish t then throw (Error ''Sirv API.getUserImages(): unable to get a token'')
          else return t))"

definition getTokenIfNotExist :: "env \<Rightarrow> string option \<Rightarrow> json io" where
  "getTokenIfNotExist e token =
     (case token of
        Some t \<Rightarrow> return (JStr t)
      | None \<Rightarrow> await (getToken e False) (\<lambda>t.
          if is_nullish t then throw (Error ''Sirv API.getUserImages(): unable to get a token'')
          else return t))"

definition bearer :: "json \<Rightarrow> string \<times> string" where
  "bearer t = (''Authorization'', ''bearer '' @ to_string t)"

subsection \<open>Media records\<close>

record media =
  ownerId :: string
  filename :: json
  mediaId :: string
  ctime :: json
  mtime :: json
  contentType :: json
  meta :: json

record UserImageReturnType =
  mediaList :: "media list"
  mediaIdList :: "string list"

text \<open>
  The object that \<open>getImagesByFilenames\<close> returns; its field \<open>mediaList\<close> is written
  \<open>images\<close> here, the record above having taken the name.
\<close>

record ImagesByFilenames =
  images :: "media list"
  idList :: "string list"

definition mediaUrlHash :: "env \<Rightarrow> json \<Rightarrow> exn + string" where
  "mediaUrlHash e mediaUrl = uuidv5 e mediaUrl (uuidv5_URL e)"

definition stripMeta :: "json \<Rightarrow> exn + json" where
  "stripMeta m =
     and_then (get_prop m ''width'') (\<lambda>width.
     and_then (get_prop m ''height'') (\<lambda>height.
     and_then (get_prop m ''format'') (\<lambda>format.
       Inr (JObj [(''width'', width), (''height'', height), (''format'', format)]))))"

subsection \<open>Search\<close>

text \<open>The callback of \<open>res.data.hits.map\<close> in \<open>getUserImages\<close>.\<close>

definition userImageEntry :: "env \<Rightarrow> string \<Rightarrow> json \<Rightarrow> exn + media" where
  "userImageEntry e uuid entry =
     and_then (get_prop entry ''_source'') (\<lambda>source.
     and_then (get_prop source ''filename'') (\<lambda>fname.
     and_then (get_prop source ''ctime'') (\<lambda>ct.
     and_then (get_prop source ''mtime'') (\<lambda>mt.
     and_then (get_prop source ''contentType'') (\<lambda>cty.
     and_then (get_prop source ''meta'') (\<lambda>mta.
     and_then (mediaUrlHash e fname) (\<lambda>mid.
       Inr \<lparr>ownerId = uuid, filename = fname, mediaId = mid, ctime = ct, mtime = mt,
            contentType = cty, meta = mta\<rparr>)))))))"

definition userImagesQuery :: "string \<Rightarrow> string" where
  "userImagesQuery uuid =
     ''(extension:.jpg OR extension:.jpeg OR extension:.png) AND dirname:'' @ [backslash]
       @ ''/u'' @ [backslash] @ ''/'' @ uuid @ '' AND -dirname:'' @ [backslash]
       @ ''/.Trash AND -filename:uid.json''"

definition getUserImages ::
  "env \<Rightarrow> string \<Rightarrow> int option \<Rightarrow> string option \<Rightarrow> UserImageReturnType io" where
  "getUserImages e uuid sz token =
     await (getTokenIfNotExist e token) (\<lambda>t.
     await (client_post e ''/files/search''
              (Json (JObj [(''query'', JStr (userImagesQuery uuid)),
                           (''sort'', JObj [(''ctime'', JStr ''desc'')]),
                           (''size'', JNum (case sz of None \<Rightarrow> 100 | Some n \<Rightarrow> n))]))
              (headers @ [bearer t])) (\<lambda>res.
       if status res = 200
       then await (lift (get_prop (data res) ''hits'')) (\<lambda>hits.
              case hits of
                JArr entries \<Rightarrow>
                  await (lift (map_result (userImageEntry e uuid) entries)) (\<lambda>ms.
                    return \<lparr>mediaList = ms, mediaIdList = map mediaId ms\<rparr>)
              | _ \<Rightarrow> throw (Error (''Sirv API.getUserImages() error'' @ statusText res)))
       else throw (Error (''Sirv API.getUserImages() error'' @ statusText res))))"

text \<open>The callback of \<open>res.data.hits.map\<close> in \<open>getImagesByFilenames\<close>.\<close>

definition filenameEntry :: "env \<Rightarrow> json \<Rightarrow> exn + media" where
  "filenameEntry e entry =
     and_then (get_prop entry ''_source'') (\<lambda>source.
     and_then (get_prop source ''filename'') (\<lambda>fname.
     and_then (get_prop source ''ctime'') (\<lambda>ct.
     and_then (get_prop source ''mtime'') (\<lambda>mt.
     and_then (get_prop source ''contentType'') (\<lambda>cty.
     and_then (get_prop source ''meta'') (\<lambda>mta.
     and_then (mediaUrlHash e fname) (\<lambda>mid.
     and_then (stripMeta mta) (\<lambda>stripped.
       Inr \<lparr>ownerId = [], filename = fname, mediaId = mid, ctime = ct, mtime = mt,
            contentType = cty, meta = stripped\<rparr>))))))))"

definition filenamesQuery :: "env \<Rightarrow> string list \<Rightarrow> string" where
  "filenamesQuery e fileList =
     ''('' @ join '' OR '' (map (\<lambda>file. ''filename:'' @ escape_slashes (trim (basename e file))) fileList)
       @ '') AND -dirname:'' @ [backslash] @ ''/.Trash''"

definition filenamesRequest :: "env \<Rightarrow> string list \<Rightarrow> json \<Rightarrow> request" where
  "filenamesRequest e fileList t =
     \<lparr>verb = POST, url = ''/files/search'',
      body = Some (Json (JObj [(''query'', JStr (filenamesQuery e fileList)), (''size'', JNum 50)])),
      config_headers = headers @ [bearer t]\<rparr>"

definition getImagesByFilenames ::
  "env \<Rightarrow> string list \<Rightarrow> string option \<Rightarrow> ImagesByFilenames io" where
  "getImagesByFilenames e fileList token =
     (if length fileList = 0 then return \<lparr>images = [], idList = []\<rparr>
      else
        await (getTokenIfNotExist e token) (\<lambda>t.
        await (send e (filenamesRequest e fileList t)) (\<lambda>res.
          if status res = 200
          then await (lift (get_prop (data res) ''hits'')) (\<lambda>hits.
                 case hits of
                   JArr entries \<Rightarrow>
                     await (lift (map_result (filenameEntry e) entries)) (\<lambda>ms.
                       return \<lparr>images = ms, idList = map mediaId ms\<rparr>)
                 | _ \<Rightarrow> throw (Error (''Sirv API.searchUserImage() error'' @ statusText res)))
          else throw (Error (''Sirv API.searchUserImage() error'' @ statusText res)))))"

subsection \<open>Files and directories\<close>

definition getFileInfo :: "env \<Rightarrow> string \<Rightarrow> string \<Rightarrow> string option \<Rightarrow> media io" where
  "getFileInfo e uuid fname token =
     await (getTokenIfNotExist e token) (\<lambda>t.
     await (client_get e (''/files/stat?filename='' @ encodeURIComponent e fname)
              (headers @ [bearer t])) (\<lambda>res.
       if status res = 200
       then lift (and_then (get_prop (data res) ''ctime'') (\<lambda>ct.
                  and_then (get_prop (data res) ''mtime'') (\<lambda>mt.
                  and_then (get_prop (data res) ''contentType'') (\<lambda>cty.
                  and_then (get_prop (data res) ''meta'') (\<lambda>mta.
                  and_then (mediaUrlHash e (JStr fname)) (\<lambda>mid.
                    Inr \<lparr>ownerId = uuid, filename = JStr fname, mediaId = mid, ctime = ct,
                         mtime = mt, contentType = cty, meta = mta\<rparr>))))))
       else throw (Error (''Sirv API.getFileInfo() error'' @ statusText res))))"

definition getUserFiles :: "env \<Rightarrow> string \<Rightarrow> string option \<Rightarrow> json io" where
  "getUserFiles e uuid token =
     await (getTokenIfNotExist e token) (\<lambda>t.
     await (client_get e (''/files/readdir?dirname='' @ encodeURIComponent e (''/u/'' @ uuid))
              (headers @ [bearer t])) (\<lambda>res.
       if status res = 200
       then await (console_log [LJson (data res)]) (\<lambda>_. return JNull)
       else throw (Error (''Sirv API.getUserFiles() error'' @ statusText res))))"

text \<open>\<open>e?.response?.status ?? ''\<close> for a caught \<open>e\<close>.\<close>

fun response_status :: "exn \<Rightarrow> logged" where
  "response_status (AxiosError (Some st) msg) = LInt st"
| "response_status _ = LStr []"

definition mkdirRequest :: "string \<Rightarrow> json \<Rightarrow> request" where
  "mkdirRequest uuid t =
     \<lparr>verb = POST, url = ''/files/mkdir?dirname=/u/'' @ uuid, body = Some (Json (JObj [])),
      config_headers = headers @ [bearer t]\<rparr>"

text \<open>
  The source calls \<open>getAdminTokenIfNotExist()\<close> with no argument, before the \<open>try\<close> block;
  the parameter \<open>token\<close> is not read.
\<close>

definition createUserDir :: "env \<Rightarrow> string \<Rightarrow> string option \<Rightarrow> bool io" where
  "createUserDir e uuid token =
     await (getAdminTokenIfNotExist e None) (\<lambda>t.
       try_catch
         (await (send e (mkdirRequest uuid t)) (\<lambda>res. return (status res = 200)))
         (\<lambda>ex. await (console_log [LStr ''Image API createUserDir() failed'', response_status ex])
                 (\<lambda>_. await (console_log [LExn ex]) (\<lambda>_. return False))))"

definition upload :: "env \<Rightarrow> string \<Rightarrow> nat list \<Rightarrow> string option \<Rightarrow> string io" where
  "upload e fname imageData token =
     await (getAdminTokenIfNotExist e token) (\<lambda>t.
     await (client_post e (''/files/upload?filename='' @ fname) (Buffer imageData)
              [(''Content-Type'', ''image/jpeg''), bearer t]) (\<lambda>res.
       if 200 \<le> status res \<and> status res \<le> 204 then return fname
       else throw (Error (''Image API upload() failed.  Status: '' @ int_to_string (status res)))))"

definition remove :: "env \<Rightarrow> string \<Rightarrow> string option \<Rightarrow> string io" where
  "remove e fname token =
     await (getAdminTokenIfNotExist e token) (\<lambda>t.
     await (client_post e (''/files/delete?filename='' @ fname) (Json JNull)
              [(''Content-Type'', ''application/json''), bearer t]) (\<lambda>res.
       if 200 \<le> status res \<and> status res \<le> 204 then return fname
       else throw (Error (''Image API delete() failed.  Status: '' @ int_to_string (status res)))))"

definition uidFileRequest :: "env \<Rightarrow> string \<Rightarrow> string \<Rightarrow> json \<Rightarrow> request" where
  "uidFileRequest e fname uid t =
     \<lparr>verb = POST, url = ''/files/upload?filename='' @ fname,
      body = Some (Json (JObj [(''uid'', JStr (toLowerCase uid)), (''ts'', JNum (dateNow e))])),
      config_headers = [(''Content-Type'', ''application/json''), bearer t]\<rparr>"

definition addUserIdFile :: "env \<Rightarrow> string \<Rightarrow> string option \<Rightarrow> string option \<Rightarrow> bool io" where
  "addUserIdFile e fname uid token =
     (case uid of
        None \<Rightarrow> return False
      | Some u \<Rightarrow>
          try_catch
            (await (getAdminTokenIfNotExist e token) (\<lambda>t.
             await (send e (uidFileRequest e fname u t)) (\<lambda>res.
               if 200 \<le> status res \<and> status res \<le> 204 then return True else return False)))
            (\<lambda>ex. await (console_log [LStr ''Image API create Uid file failed'', LExn ex])
                    (\<lambda>_. return False)))"

subsection \<open>Reading the requests of a run\<close>

text \<open>The requests an operation has added to the world, and the \<open>size\<close> field of a search.\<close>

definition new_requests :: "world \<Rightarrow> world \<Rightarrow> request list" where
  "new_requests w w' = drop (length (requests w)) (requests w')"

definition search_size :: "request \<Rightarrow> json option" where
  "search_size req =
     (case body req of Some (Json (JObj kvs)) \<Rightarrow> map_of kvs ''size'' | _ \<Rightarrow> None)"


section \<open>Example inputs\<close>




text \<open>
  An initial world and four environments. In the first the service answers every request with
  status 200; the second has no administrative credentials; in the third the service answers
  204 without a body; in the fourth the transport rejects every request, as it does on a 401.
  \<open>demo_uuidv5\<close> stands in for the library function.
\<close>

definition w0 :: world where
  "w0 = \<lparr>requests = [], console = []\<rparr>"

definition ok :: "json \<Rightarrow> exn + response" where
  "ok d = Inr \<lparr>status = 200, statusText = ''OK'', data = d\<rparr>"

definition demo_hit :: json where
  "demo_hit =
     JObj [(''_source'',
       JObj [(''filename'', JStr ''/u/abc/one.jpg''), (''ctime'', JStr ''2022-01-01''),
             (''mtime'', JStr ''2022-01-02''), (''contentType'', JStr ''image/jpeg''),
             (''meta'', JObj [(''width'', JNum 640), (''height'', JNum 480),
                              (''format'', JStr ''JPEG''), (''duration'', JNum 0)])])]"

definition demo_transport :: "request list \<Rightarrow> request \<Rightarrow> exn + response" where
  "demo_transport history req =
     (if url req = ''/token'' then ok (JObj [(''token'', JStr ''fresh'')])
      else if url req = ''/files/search'' then ok (JObj [(''hits'', JArr [demo_hit])])
      else ok (JObj []))"

definition demo_uuidv5 :: "json \<Rightarrow> string \<Rightarrow> exn + string" where
  "demo_uuidv5 v ns = Inr (ns @ ''#'' @ to_string v)"

definition demo_env :: env where
  "demo_env =
     \<lparr>SIRV_CONFIG = \<lparr>clientId = Some ''ro-id'', clientSecret = Some ''ro-secret'',
                     clientAdminId = Some ''rw-id'', clientAdminSecret = Some ''rw-secret'',
                     baseUrl = ''https://img.example.org''\<rparr>,
      transport = demo_transport,
      dateNow = 1650000000000,
      uuidv5 = demo_uuidv5,
      uuidv5_URL = ''6ba7b811-9dad-11d1-80b4-00c04fd430c8'',
      basename = id,
      encodeURIComponent = id\<rparr>"

definition demo_env_no_admin :: env where
  "demo_env_no_admin =
     demo_env\<lparr>SIRV_CONFIG :=
       (SIRV_CONFIG demo_env)\<lparr>clientAdminId := None, clientAdminSecret := None\<rparr>\<rparr>"

definition no_content_transport :: "request list \<Rightarrow> request \<Rightarrow> exn + response" where
  "no_content_transport history req =
     Inr \<lparr>status = 204, statusText = ''No Content'', data = JUndefined\<rparr>"

definition demo_env_no_content :: env where
  "demo_env_no_content = demo_env\<lparr>transport := no_content_transport\<rparr>"

definition unauthorized_transport :: "request list \<Rightarrow> request \<Rightarrow> exn + response" where
  "unauthorized_transport history req =
     Inl (AxiosError (Some 401) ''Request failed with status code 401'')"

definition demo_env_unauthorized :: env where
  "demo_env_unauthorized = demo_env\<lparr>transport := unauthorized_transport\<rparr>"

definition demo_media :: media where
  "demo_media =
     \<lparr>ownerId = [], filename = JStr ''/u/abc/one.jpg'',
      mediaId = ''6ba7b811-9dad-11d1-80b4-00c04fd430c8#/u/abc/one.jpg'',
      ctime = JStr ''2022-01-01'', mtime = JStr ''2022-01-02'',
      contentType = JStr ''image/jpeg'',
      meta = JObj [(''width'', JNum 640), (''height'', JNum 480), (''format'', JStr ''JPEG'')]\<rparr>"

definition demo_user_media :: media where
  "demo_user_media =
     \<lparr>ownerId = ''abc'', filename = JStr ''/u/abc/one.jpg'',
      mediaId = ''6ba7b811-9dad-11d1-80b4-00c04fd430c8#/u/abc/one.jpg'',
      ctime = JStr ''2022-01-01'', mtime = JStr ''2022-01-02'',
      contentType = JStr ''image/jpeg'',
      meta = JObj [(''width'', JNum 640), (''height'', JNum 480), (''format'', JStr ''JPEG''),
                   (''duration'', JNum 0)]\<rparr>"

definition demo_stat_media :: media where
  "demo_stat_media =
     \<lparr>ownerId = ''abc'', filename = JStr ''/u/abc/one.jpg'',
      mediaId = ''6ba7b811-9dad-11d1-80b4-00c04fd430c8#/u/abc/one.jpg'',
      ctime = JUndefined, mtime = JUndefined, contentType = JUndefined, meta = JUndefined\<rparr>"


section \<open>Properties of the presentation utilities\<close>

subsection \<open>Rounding to the nearest double\<close>













subsection \<open>Counting the disciplines\<close>






























text \<open>
  Claim C3 says that \<open>sanitizeName\<close> removes a decorative token only at the start of the
  string. The function removes the numeric prefix \<open>10:\<close> from the middle of
  \<open>Pitch 10: The Roof\<close>: only the parenthesised alternative of the expression is anchored.
\<close>

theorem sanitizeName_not_anchored:
  "sanitizeName ''Pitch 10: The Roof'' = ''Pitch  The Roof''"
  by code_simp

lemma sanitizeName_examples:
  "sanitizeName ''(6) My Route'' = ''My Route''"
  "sanitizeName ''1-My Route'' = ''My Route''"
  "sanitizeName ''a.My Route'' = ''My Route''"
  "sanitizeName ''My Route'' = ''My Route''"
  by code_simp+


section \<open>Properties of the media client\<close>

lemmas io_defs = return_def throw_def await_def try_catch_def lift_def console_log_def send_def
  client_post_def client_get_def

lemma getToken_cases:
  "getToken e a w =
     (if \<not> validateTokenParams (tokenParams e a)
      then (Inr JUndefined, w\<lparr>console := console w @ [[LStr ''Missing client token/secret'']]\<rparr>)
      else (case transport e (requests w) (tokenRequest e a) of
              Inl ex \<Rightarrow> Inl ex
            | Inr res \<Rightarrow> if status res = 200 then get_prop (data res) ''token''
                         else Inl (Error (''Sirv API.getToken() error'' @ statusText res)),
            w\<lparr>requests := requests w @ [tokenRequest e a]\<rparr>))"
  by (simp add: getToken_def io_defs split: sum.splits)


lemma tokenIfNotExist_Some:
  "getTokenIfNotExist e (Some t) w = (Inr (JStr t), w)"
  "getAdminTokenIfNotExist e (Some t) w = (Inr (JStr t), w)"
  by (simp_all add: getTokenIfNotExist_def getAdminTokenIfNotExist_def io_defs)

lemma getToken_requests:
  "requests (snd (getToken e a w)) = requests w
   \<or> requests (snd (getToken e a w)) = requests w @ [tokenRequest e a]"
  by (simp add: getToken_cases)

lemma tokenIfNotExist_requests:
  "requests (snd (getTokenIfNotExist e token w)) = requests w
   \<or> requests (snd (getTokenIfNotExist e token w)) = requests w @ [tokenRequest e False]"
  "requests (snd (getAdminTokenIfNotExist e token w)) = requests w
   \<or> requests (snd (getAdminTokenIfNotExist e token w)) = requests w @ [tokenRequest e True]"
  using getToken_requests[of e False w] getToken_requests[of e True w]
  by (auto simp: getTokenIfNotExist_def getAdminTokenIfNotExist_def getAdminToken_def io_defs
           split: option.splits sum.splits prod.splits)

lemma map_result_Inr:
  "map_result f xs = Inr ys \<Longrightarrow> y \<in> set ys \<Longrightarrow> \<exists>x \<in> set xs. f x = Inr y"
  by (induction xs arbitrary: ys) (auto simp: and_then_def split: sum.splits)

lemma stripMeta_shape:
  "stripMeta m = Inr s \<Longrightarrow> \<exists>wd ht fm. s = JObj [(''width'', wd), (''height'', ht), (''format'', fm)]"
  by (auto simp: stripMeta_def and_then_def split: sum.splits)

lemma filenameEntry_Inr:
  assumes "filenameEntry e entry = Inr m"
  shows "ownerId m = []"
    and "\<exists>wd ht fm. meta m = JObj [(''width'', wd), (''height'', ht), (''format'', fm)]"
    and "mediaUrlHash e (filename m) = Inr (mediaId m)"
  using assms stripMeta_shape
  by (auto simp: filenameEntry_def and_then_def split: sum.splits)

lemma userImageEntry_Inr:
  assumes "userImageEntry e uuid entry = Inr m"
  shows "ownerId m = uuid" and "mediaUrlHash e (filename m) = Inr (mediaId m)"
  using assms by (auto simp: userImageEntry_def and_then_def split: sum.splits)

lemma getImagesByFilenames_Inr:
  assumes "fileList \<noteq> []" "fst (getImagesByFilenames e fileList token w) = Inr r"
  shows "\<exists>entries. map_result (filenameEntry e) entries = Inr (images r)
                   \<and> idList r = map mediaId (images r)"
  using assms
  by (auto simp: getImagesByFilenames_def io_defs
           split: sum.splits prod.splits if_splits json.splits)

lemma getUserImages_Inr:
  assumes "fst (getUserImages e uuid sz token w) = Inr r"
  shows "\<exists>entries. map_result (userImageEntry e uuid) entries = Inr (mediaList r)
                   \<and> mediaIdList r = map mediaId (mediaList r)"
  using assms
  by (auto simp: getUserImages_def io_defs
           split: sum.splits prod.splits if_splits json.splits)

lemma getFileInfo_Inr:
  assumes "fst (getFileInfo e uuid fname token w) = Inr m"
  shows "mediaUrlHash e (filename m) = Inr (mediaId m)" "filename m = JStr fname" "ownerId m = uuid"
  using assms
  by (auto simp: getFileInfo_def io_defs and_then_def
           split: sum.splits prod.splits if_splits)

text \<open>
  Claim C7. Called with an empty list of filenames, \<open>getImagesByFilenames\<close> returns an empty
  media list and an empty id list and leaves the world as it was: no token is acquired, no
  request is sent. When the list is not empty and the call returns a result, every record of
  the result has the empty string as its owner and a metadata object with exactly the fields
  \<open>width\<close>, \<open>height\<close> and \<open>format\<close>.
\<close>

theorem getImagesByFilenames_contract:
  "getImagesByFilenames e [] token w = (Inr \<lparr>images = [], idList = []\<rparr>, w)
   \<and> (fileList \<noteq> [] \<and> fst (getImagesByFilenames e fileList token w) = Inr r \<longrightarrow>
        (\<forall>m \<in> set (images r).
           ownerId m = []
           \<and> (\<exists>wd ht fm. meta m = JObj [(''width'', wd), (''height'', ht), (''format'', fm)])))"
proof (intro conjI impI ballI)
  show "getImagesByFilenames e [] token w = (Inr \<lparr>images = [], idList = []\<rparr>, w)"
    by (simp add: getImagesByFilenames_def return_def)
next
  fix m
  assume a: "fileList \<noteq> [] \<and> fst (getImagesByFilenames e fileList token w) = Inr r"
    and m: "m \<in> set (images r)"
  obtain entries where "map_result (filenameEntry e) entries = Inr (images r)"
    using getImagesByFilenames_Inr a by blast
  from map_result_Inr[OF this m] obtain entry where en: "filenameEntry e entry = Inr m"
    by blast
  show "ownerId m = []" using filenameEntry_Inr(1)[OF en] .
  show "\<exists>wd ht fm. meta m = JObj [(''width'', wd), (''height'', ht), (''format'', fm)]"
    using filenameEntry_Inr(2)[OF en] .
qed

text \<open>
  Claim C8. Every media record returned by \<open>getUserImages\<close>, \<open>getImagesByFilenames\<close> and
  \<open>getFileInfo\<close> has as its \<open>mediaId\<close> the value of \<open>mediaUrlHash\<close> at its filename, and the
  lists of ids are the ids of the records in order. \<open>mediaUrlHash\<close> reads nothing but its
  argument and the library function: two environments with the same \<open>uuidv5\<close>, whatever their
  configuration, transport or clock, give the same id for the same filename.
\<close>

theorem mediaId_is_hash_of_filename:
  "(fst (getUserImages e uuid sz token w) = Inr r \<longrightarrow>
      (\<forall>m \<in> set (mediaList r). mediaUrlHash e (filename m) = Inr (mediaId m))
      \<and> mediaIdList r = map mediaId (mediaList r))
   \<and> (fst (getImagesByFilenames e fileList token w) = Inr r' \<longrightarrow>
      (\<forall>m \<in> set (images r'). mediaUrlHash e (filename m) = Inr (mediaId m))
      \<and> idList r' = map mediaId (images r'))
   \<and> (fst (getFileInfo e uuid fname token w) = Inr m' \<longrightarrow>
      mediaUrlHash e (filename m') = Inr (mediaId m') \<and> filename m' = JStr fname)
   \<and> (uuidv5 e = uuidv5 e' \<and> uuidv5_URL e = uuidv5_URL e' \<longrightarrow>
      mediaUrlHash e f = mediaUrlHash e' f)"
proof (intro conjI impI ballI)
  fix m assume r: "fst (getUserImages e uuid sz token w) = Inr r" and m: "m \<in> set (mediaList r)"
  obtain entries where "map_result (userImageEntry e uuid) entries = Inr (mediaList r)"
    using getUserImages_Inr[OF r] by blast
  from map_result_Inr[OF this m] obtain entry where "userImageEntry e uuid entry = Inr m"
    by blast
  then show "mediaUrlHash e (filename m) = Inr (mediaId m)" by (rule userImageEntry_Inr(2))
next
  assume "fst (getUserImages e uuid sz token w) = Inr r"
  then show "mediaIdList r = map mediaId (mediaList r)" using getUserImages_Inr by blast
next
  fix m assume r: "fst (getImagesByFilenames e fileList token w) = Inr r'"
    and m: "m \<in> set (images r')"
  have ne: "fileList \<noteq> []" using r m by (auto simp: getImagesByFilenames_def return_def)
  obtain entries where "map_result (filenameEntry e) entries = Inr (images r')"
    using getImagesByFilenames_Inr[OF ne r] by blast
  from map_result_Inr[OF this m] obtain entry where "filenameEntry e entry = Inr m"
    by blast
  then show "mediaUrlHash e (filename m) = Inr (mediaId m)" by (rule filenameEntry_Inr(3))
next
  assume r: "fst (getImagesByFilenames e fileList token w) = Inr r'"
  show "idList r' = map mediaId (images r')"
  proof (cases "fileList = []")
    case True
    then show ?thesis using r by (auto simp: getImagesByFilenames_def return_def)
  next
    case False
    then show ?thesis using getImagesByFilenames_Inr r by blast
  qed
next
  assume "fst (getFileInfo e uuid fname token w) = Inr m'"
  then show "mediaUrlHash e (filename m') = Inr (mediaId m')" "filename m' = JStr fname"
    using getFileInfo_Inr by blast+
next
  assume "uuidv5 e = uuidv5 e' \<and> uuidv5_URL e = uuidv5_URL e'"
  then show "mediaUrlHash e f = mediaUrlHash e' f" by (simp add: mediaUrlHash_def)
qed

lemma snd_await:
  "snd (await m f w) = (case m w of (Inl ex, w') \<Rightarrow> w' | (Inr x, w') \<Rightarrow> snd (f x w'))"
  by (simp add: await_def split: prod.splits sum.splits)

lemma snd_try_catch:
  "snd (try_catch m h w) = (case m w of (Inl ex, w') \<Rightarrow> snd (h ex w') | (Inr x, w') \<Rightarrow> w')"
  by (simp add: try_catch_def split: prod.splits sum.splits)

lemma requests_after_token:
  assumes "\<And>t w1. requests (snd (f t w1)) = requests w1 @ [g t]"
  shows "\<exists>t. new_requests w (snd (await (getTokenIfNotExist e token) f w))
              \<in> {[], [tokenRequest e False], [g t], [tokenRequest e False, g t]}"
proof (cases "getTokenIfNotExist e token w")
  case (Pair rt w1)
  have w1: "requests w1 = requests w \<or> requests w1 = requests w @ [tokenRequest e False]"
    using tokenIfNotExist_requests(1)[of e token w] Pair by simp
  show ?thesis
  proof (cases rt)
    case (Inl ex)
    then have "snd (await (getTokenIfNotExist e token) f w) = w1"
      using Pair by (simp add: snd_await)
    then show ?thesis using w1 by (auto simp: new_requests_def)
  next
    case (Inr t)
    then have "requests (snd (await (getTokenIfNotExist e token) f w)) = requests w1 @ [g t]"
      using Pair assms by (simp add: snd_await)
    then have "new_requests w (snd (await (getTokenIfNotExist e token) f w)) = [g t]
       \<or> new_requests w (snd (await (getTokenIfNotExist e token) f w)) = [tokenRequest e False, g t]"
      using w1 by (auto simp: new_requests_def)
    then show ?thesis by blast
  qed
qed

lemma requests_after_admin_token:
  assumes "\<And>t w1. requests (snd (f t w1)) = requests w1 @ [g t]"
  shows "\<exists>t. new_requests w (snd (await (getAdminTokenIfNotExist e token) f w))
              \<in> {[], [tokenRequest e True], [g t], [tokenRequest e True, g t]}"
proof (cases "getAdminTokenIfNotExist e token w")
  case (Pair rt w1)
  have w1: "requests w1 = requests w \<or> requests w1 = requests w @ [tokenRequest e True]"
    using tokenIfNotExist_requests(2)[of e token w] Pair by simp
  show ?thesis
  proof (cases rt)
    case (Inl ex)
    then have "snd (await (getAdminTokenIfNotExist e token) f w) = w1"
      using Pair by (simp add: snd_await)
    then show ?thesis using w1 by (auto simp: new_requests_def)
  next
    case (Inr t)
    then have "requests (snd (await (getAdminTokenIfNotExist e token) f w)) = requests w1 @ [g t]"
      using Pair assms by (simp add: snd_await)
    then have "new_requests w (snd (await (getAdminTokenIfNotExist e token) f w)) = [g t]
       \<or> new_requests w (snd (await (getAdminTokenIfNotExist e token) f w)) = [tokenRequest e True, g t]"
      using w1 by (auto simp: new_requests_def)
    then show ?thesis by blast
  qed
qed

lemma filenames_search_step:
  "requests (snd (await (send e (filenamesRequest e fileList t)) (\<lambda>res.
          if status res = 200
          then await (lift (get_prop (data res) ''hits'')) (\<lambda>hits.
                 case hits of
                   JArr entries \<Rightarrow>
                     await (lift (map_result (filenameEntry e) entries)) (\<lambda>ms.
                       return \<lparr>images = ms, idList = map mediaId ms\<rparr>)
                 | _ \<Rightarrow> throw (Error (''Sirv API.searchUserImage() error'' @ statusText res)))
          else throw (Error (''Sirv API.searchUserImage() error'' @ statusText res))) w1))
    = requests w1 @ [filenamesRequest e fileList t]"
  by (simp add: snd_await send_def lift_def return_def throw_def split: sum.splits json.splits)

lemma getImagesByFilenames_requests:
  assumes "fileList \<noteq> []"
  shows "\<exists>t. new_requests w (snd (getImagesByFilenames e fileList token w))
              \<in> {[], [tokenRequest e False], [filenamesRequest e fileList t],
                  [tokenRequest e False, filenamesRequest e fileList t]}"
  unfolding getImagesByFilenames_def using assms
  by (simp only: length_0_conv if_False) (rule requests_after_token, rule filenames_search_step)

text \<open>
  Claim C9. For every non-empty list of filenames, every search request that
  \<open>getImagesByFilenames\<close> sends carries the size 50, however long the list is; with a supplied
  token the search request is the one request sent.
\<close>

theorem getImagesByFilenames_size_50:
  "fileList \<noteq> [] \<longrightarrow>
     (\<forall>req \<in> set (new_requests w (snd (getImagesByFilenames e fileList token w))).
        url req = ''/files/search'' \<longrightarrow> search_size req = Some (JNum 50))
     \<and> (\<forall>t. token = Some t \<longrightarrow>
          new_requests w (snd (getImagesByFilenames e fileList token w))
            = [filenamesRequest e fileList (JStr t)]
          \<and> url (filenamesRequest e fileList (JStr t)) = ''/files/search'')"
proof (intro impI conjI ballI allI)
  fix req
  assume ne: "fileList \<noteq> []"
    and req: "req \<in> set (new_requests w (snd (getImagesByFilenames e fileList token w)))"
    and u: "url req = ''/files/search''"
  obtain t where "new_requests w (snd (getImagesByFilenames e fileList token w))
              \<in> {[], [tokenRequest e False], [filenamesRequest e fileList t],
                  [tokenRequest e False, filenamesRequest e fileList t]}"
    using getImagesByFilenames_requests[OF ne] by blast
  then have "req = tokenRequest e False \<or> req = filenamesRequest e fileList t"
    using req by auto
  then show "search_size req = Some (JNum 50)"
    using u by (auto simp: tokenRequest_def filenamesRequest_def search_size_def)
next
  fix t assume "fileList \<noteq> []" "token = Some t"
  then show "new_requests w (snd (getImagesByFilenames e fileList token w))
            = [filenamesRequest e fileList (JStr t)]"
    using filenames_search_step[of e fileList "JStr t" w]
    by (simp add: getImagesByFilenames_def new_requests_def snd_await tokenIfNotExist_Some)
next
  fix t show "url (filenamesRequest e fileList (JStr t)) = ''/files/search''"
    by (simp add: filenamesRequest_def)
qed

lemma uid_upload_step:
  "requests (snd (await (send e (uidFileRequest e fname u t)) (\<lambda>res.
               if 200 \<le> status res \<and> status res \<le> 204 then return True else return False) w1))
    = requests w1 @ [uidFileRequest e fname u t]"
  by (simp add: snd_await send_def return_def split: sum.splits)

lemma snd_try_catch_log:
  "requests (snd (try_catch m (\<lambda>ex. await (console_log (line ex)) (\<lambda>_. return False)) w))
     = requests (snd (m w))"
  by (simp add: snd_try_catch snd_await console_log_def return_def split: prod.splits sum.splits)

lemma addUserIdFile_requests:
  "\<exists>t. new_requests w (snd (addUserIdFile e fname (Some u) token w))
              \<in> {[], [tokenRequest e True], [uidFileRequest e fname u t],
                  [tokenRequest e True, uidFileRequest e fname u t]}"
proof -
  have "\<exists>t. new_requests w (snd (await (getAdminTokenIfNotExist e token) (\<lambda>t.
             await (send e (uidFileRequest e fname u t)) (\<lambda>res.
               if 200 \<le> status res \<and> status res \<le> 204 then return True else return False)) w))
              \<in> {[], [tokenRequest e True], [uidFileRequest e fname u t],
                  [tokenRequest e True, uidFileRequest e fname u t]}"
    by (rule requests_after_admin_token, rule uid_upload_step)
  then show ?thesis
    unfolding addUserIdFile_def new_requests_def option.case
    by (simp only: snd_try_catch_log[where line = "\<lambda>ex. [LStr ''Image API create Uid file failed'', LExn ex]"])
qed

text \<open>
  Claim C10. Called with an absent owner id, \<open>addUserIdFile\<close> returns \<open>false\<close> and leaves the
  world as it was: no token is acquired, no request is sent. Otherwise every request it sends
  other than the token request has as its body the owner id in lower case and the time of the
  clock; with a supplied token that upload is the one request sent.
\<close>

theorem addUserIdFile_contract:
  "addUserIdFile e fname None token w = (Inr False, w)
   \<and> (\<forall>req \<in> set (new_requests w (snd (addUserIdFile e fname (Some u) token w))).
        url req \<noteq> ''/token'' \<longrightarrow>
        body req = Some (Json (JObj [(''uid'', JStr (toLowerCase u)), (''ts'', JNum (dateNow e))])))
   \<and> (\<forall>t. token = Some t \<longrightarrow>
        new_requests w (snd (addUserIdFile e fname (Some u) token w))
          = [uidFileRequest e fname u (JStr t)]
        \<and> url (uidFileRequest e fname u (JStr t)) \<noteq> ''/token'')"
proof (intro impI conjI ballI allI)
  show "addUserIdFile e fname None token w = (Inr False, w)"
    by (simp add: addUserIdFile_def return_def)
next
  fix req
  assume req: "req \<in> set (new_requests w (snd (addUserIdFile e fname (Some u) token w)))"
    and u: "url req \<noteq> ''/token''"
  obtain t where "new_requests w (snd (addUserIdFile e fname (Some u) token w))
              \<in> {[], [tokenRequest e True], [uidFileRequest e fname u t],
                  [tokenRequest e True, uidFileRequest e fname u t]}"
    using addUserIdFile_requests by blast
  then have "req = tokenRequest e True \<or> req = uidFileRequest e fname u t"
    using req by auto
  then show "body req = Some (Json (JObj [(''uid'', JStr (toLowerCase u)), (''ts'', JNum (dateNow e))]))"
    using u by (auto simp: tokenRequest_def uidFileRequest_def)
next
  fix t assume "token = Some t"
  then show "new_requests w (snd (addUserIdFile e fname (Some u) token w))
          = [uidFileRequest e fname u (JStr t)]"
    using uid_upload_step[of e fname u "JStr t" w]
    by (simp add: addUserIdFile_def new_requests_def snd_await tokenIfNotExist_Some
          snd_try_catch_log[where line = "\<lambda>ex. [LStr ''Image API create Uid file failed'', LExn ex]"])
next
  fix t show "url (uidFileRequest e fname u (JStr t)) \<noteq> ''/token''"
    by (simp add: uidFileRequest_def)
qed

lemmas demo_defs = w0_def ok_def demo_hit_def demo_transport_def demo_uuidv5_def demo_env_def
  demo_env_no_admin_def no_content_transport_def demo_env_no_content_def
  unauthorized_transport_def demo_env_unauthorized_def demo_media_def

lemmas op_defs = getToken_def getAdminToken_def getAdminTokenIfNotExist_def getTokenIfNotExist_def
  tokenParams_def validateTokenParams_def tokenRequest_def string_or_null_def bearer_def
  headers_def mediaUrlHash_def and_then_def


lemma demo_getImagesByFilenames:
  "getImagesByFilenames demo_env [''/u/abc/one.jpg''] (Some ''tok'') w0
     = (Inr \<lparr>images = [demo_media], idList = [mediaId demo_media]\<rparr>,
        \<lparr>requests = [filenamesRequest demo_env [''/u/abc/one.jpg''] (JStr ''tok'')], console = []\<rparr>)"
  by (simp add: getImagesByFilenames_def io_defs op_defs demo_defs filenamesRequest_def
        filenameEntry_def stripMeta_def)

text \<open>
  Claim C7 at the empty list, and at one filename that the service finds; the extra metadata
  field of the hit is gone from the record.
\<close>

theorem getImagesByFilenames_contract_witness:
  "getImagesByFilenames demo_env [] (Some ''tok'') w0 = (Inr \<lparr>images = [], idList = []\<rparr>, w0)
   \<and> [''/u/abc/one.jpg''] \<noteq> []
   \<and> fst (getImagesByFilenames demo_env [''/u/abc/one.jpg''] (Some ''tok'') w0)
        = Inr \<lparr>images = [demo_media], idList = [mediaId demo_media]\<rparr>
   \<and> ownerId demo_media = []
   \<and> meta demo_media = JObj [(''width'', JNum 640), (''height'', JNum 480), (''format'', JStr ''JPEG'')]"
  using getImagesByFilenames_contract[of demo_env "Some ''tok''" w0 "[''/u/abc/one.jpg'']"
          "\<lparr>images = [demo_media], idList = [mediaId demo_media]\<rparr>"]
  by (simp add: demo_getImagesByFilenames) (simp add: demo_media_def)

lemma demo_getUserImages:
  "fst (getUserImages demo_env ''abc'' None (Some ''tok'') w0)
     = Inr \<lparr>mediaList = [demo_user_media], mediaIdList = [mediaId demo_user_media]\<rparr>"
  by (simp add: getUserImages_def io_defs op_defs demo_defs userImageEntry_def
        demo_user_media_def)

lemma demo_getFileInfo:
  "fst (getFileInfo demo_env ''abc'' ''/u/abc/one.jpg'' (Some ''tok'') w0) = Inr demo_stat_media"
  by (simp add: getFileInfo_def io_defs op_defs demo_defs demo_stat_media_def)

text \<open>
  Claim C8 at one result of each of the three operations, and at two environments that differ
  in their transport.
\<close>

theorem mediaId_is_hash_of_filename_witness:
  "fst (getUserImages demo_env ''abc'' None (Some ''tok'') w0)
     = Inr \<lparr>mediaList = [demo_user_media], mediaIdList = [mediaId demo_user_media]\<rparr>
   \<and> mediaUrlHash demo_env (filename demo_user_media) = Inr (mediaId demo_user_media)
   \<and> fst (getImagesByFilenames demo_env [''/u/abc/one.jpg''] (Some ''tok'') w0)
     = Inr \<lparr>images = [demo_media], idList = [mediaId demo_media]\<rparr>
   \<and> mediaUrlHash demo_env (filename demo_media) = Inr (mediaId demo_media)
   \<and> fst (getFileInfo demo_env ''abc'' ''/u/abc/one.jpg'' (Some ''tok'') w0) = Inr demo_stat_media
   \<and> mediaUrlHash demo_env (filename demo_stat_media) = Inr (mediaId demo_stat_media)
   \<and> uuidv5 demo_env = uuidv5 demo_env_unauthorized
   \<and> uuidv5_URL demo_env = uuidv5_URL demo_env_unauthorized
   \<and> mediaUrlHash demo_env (JStr ''/u/abc/one.jpg'')
        = mediaUrlHash demo_env_unauthorized (JStr ''/u/abc/one.jpg'')"
  using mediaId_is_hash_of_filename[of demo_env "''abc''" None "Some ''tok''" w0
          "\<lparr>mediaList = [demo_user_media], mediaIdList = [mediaId demo_user_media]\<rparr>"
          "[''/u/abc/one.jpg'']" "\<lparr>images = [demo_media], idList = [mediaId demo_media]\<rparr>"
          "''/u/abc/one.jpg''" demo_stat_media demo_env_unauthorized "JStr ''/u/abc/one.jpg''"]
  by (simp add: demo_getUserImages demo_getImagesByFilenames demo_getFileInfo)
     (simp add: mediaUrlHash_def demo_defs demo_stat_media_def)

text \<open>
  Claim C9 at a list of two filenames.
\<close>

theorem getImagesByFilenames_size_50_witness:
  "[''/u/abc/one.jpg'', ''two.png''] \<noteq> []
   \<and> new_requests w0 (snd (getImagesByFilenames demo_env [''/u/abc/one.jpg'', ''two.png''] (Some ''tok'') w0))
        = [filenamesRequest demo_env [''/u/abc/one.jpg'', ''two.png''] (JStr ''tok'')]
   \<and> url (filenamesRequest demo_env [''/u/abc/one.jpg'', ''two.png''] (JStr ''tok'')) = ''/files/search''
   \<and> search_size (filenamesRequest demo_env [''/u/abc/one.jpg'', ''two.png''] (JStr ''tok''))
        = Some (JNum 50)"
  using getImagesByFilenames_size_50[of "[''/u/abc/one.jpg'', ''two.png'']" w0 demo_env "Some ''tok''"]
  by simp

text \<open>
  Claim C10 at an absent owner id and at the owner id \<open>VNguyen\<close>.
\<close>

theorem addUserIdFile_contract_witness:
  "addUserIdFile demo_env ''/u/abc/uid.json'' None (Some ''tok'') w0 = (Inr False, w0)
   \<and> new_requests w0 (snd (addUserIdFile demo_env ''/u/abc/uid.json'' (Some ''VNguyen'') (Some ''tok'') w0))
        = [uidFileRequest demo_env ''/u/abc/uid.json'' ''VNguyen'' (JStr ''tok'')]
   \<and> url (uidFileRequest demo_env ''/u/abc/uid.json'' ''VNguyen'' (JStr ''tok'')) \<noteq> ''/token''
   \<and> body (uidFileRequest demo_env ''/u/abc/uid.json'' ''VNguyen'' (JStr ''tok''))
        = Some (Json (JObj [(''uid'', JStr ''vnguyen''), (''ts'', JNum 1650000000000)]))"
proof -
  have l: "toLowerCase ''VNguyen'' = ''vnguyen''" by code_simp
  have d: "dateNow demo_env = 1650000000000" by (simp add: demo_env_def)
  show ?thesis
    using addUserIdFile_contract[of demo_env "''/u/abc/uid.json''" "Some ''tok''" w0 "''VNguyen''"]
    by (simp add: l d)
qed

subsection \<open>createUserDir\<close>

lemma createUserDir_token_failure:
  assumes "getAdminTokenIfNotExist e None w = (Inl ex, w1)"
  shows "createUserDir e uuid token w = (Inl ex, w1)"
  using assms by (simp add: createUserDir_def await_def)

lemma createUserDir_after_token:
  assumes "getAdminTokenIfNotExist e None w = (Inr t, w1)"
  shows "fst (createUserDir e uuid token w)
           = Inr (case transport e (requests w1) (mkdirRequest uuid t) of
                    Inl ex \<Rightarrow> False | Inr res \<Rightarrow> status res = 200)"
  using assms by (simp add: createUserDir_def io_defs split: sum.splits)

lemma createUserDir_token_unused:
  "createUserDir e uuid (Some t) w = createUserDir e uuid None w"
  by (simp add: createUserDir_def)

text \<open>
  Claim C4 says that \<open>createUserDir\<close> never lets an exception reach its caller, a failure of the
  token acquisition included. The token is acquired before the \<open>try\<close> block: without
  administrative credentials the error of \<open>getAdminTokenIfNotExist\<close> reaches the caller, and
  so does the rejection of the token request by the transport.
\<close>

theorem createUserDir_propagates_token_failure:
  "createUserDir demo_env_no_admin ''abc'' None w0
     = (Inl (Error ''Sirv API.getUserImages(): unable to get a token''),
        \<lparr>requests = [], console = [[LStr ''Missing client token/secret'']]\<rparr>)
   \<and> createUserDir demo_env_unauthorized ''abc'' None w0
     = (Inl (AxiosError (Some 401) ''Request failed with status code 401''),
        \<lparr>requests = [tokenRequest demo_env_unauthorized True], console = []\<rparr>)"
  by (simp add: createUserDir_def io_defs op_defs demo_defs)

text \<open>
  Claim C6 says that \<open>createUserDir\<close> uses a token that its caller supplies and acquires none
  in that case. Called with the token \<open>mine\<close> it sends a token request all the same, and the
  mkdir request carries the acquired token \<open>fresh\<close>.
\<close>

theorem createUserDir_ignores_supplied_token:
  "createUserDir demo_env ''abc'' (Some ''mine'') w0
     = (Inr True,
        \<lparr>requests = [tokenRequest demo_env True, mkdirRequest ''abc'' (JStr ''fresh'')],
         console = []\<rparr>)
   \<and> config_headers (mkdirRequest ''abc'' (JStr ''fresh''))
     = [(''content-type'', ''application/json''), (''Authorization'', ''bearer fresh'')]"
  by (simp add: createUserDir_def io_defs op_defs demo_defs mkdirRequest_def)

text \<open>The sibling operations with a supplied token: one request, carrying that token.\<close>

lemma upload_uses_supplied_token:
  "new_requests w (snd (upload e fname imageData (Some t) w))
     = [\<lparr>verb = POST, url = ''/files/upload?filename='' @ fname, body = Some (Buffer imageData),
         config_headers = [(''Content-Type'', ''image/jpeg''), bearer (JStr t)]\<rparr>]"
  by (simp add: upload_def new_requests_def snd_await tokenIfNotExist_Some client_post_def send_def
        return_def throw_def split: sum.splits)

lemma remove_uses_supplied_token:
  "new_requests w (snd (remove e fname (Some t) w))
     = [\<lparr>verb = POST, url = ''/files/delete?filename='' @ fname, body = Some (Json JNull),
         config_headers = [(''Content-Type'', ''application/json''), bearer (JStr t)]\<rparr>]"
  by (simp add: remove_def new_requests_def snd_await tokenIfNotExist_Some client_post_def send_def
        return_def throw_def split: sum.splits)

end
